theory Spec2Isabelle
  imports Main
begin

section \<open>Python values, truthiness and exceptions\<close>

text \<open>
  A filter call returns an arbitrary Python object; the combinators only look at its
  truthiness (\<^verbatim>\<open>not x\<close>, \<^verbatim>\<open>if x\<close>, \<^verbatim>\<open>x and y\<close>, \<^verbatim>\<open>x or y\<close>). The values
  that the filters of \<^verbatim>\<open>filters.py\<close> can return are \<^verbatim>\<open>None\<close>, booleans, integers and
  strings.
\<close>

datatype pyval = PNone | PBool bool | PInt int | PStr string

fun truthy :: "pyval \<Rightarrow> bool" where
  "truthy PNone = False"
| "truthy (PBool b) = b"
| "truthy (PInt n) = (n \<noteq> 0)"
| "truthy (PStr s) = (s \<noteq> [])"

fun is_bool :: "pyval \<Rightarrow> bool" where
  "is_bool (PBool b) = True"
| "is_bool v = False"

text \<open>\<^verbatim>\<open>x and y\<close> and \<^verbatim>\<open>x or y\<close> return one of their operands, not a boolean.\<close>

definition py_and :: "pyval \<Rightarrow> pyval \<Rightarrow> pyval" where
  "py_and x y = (if truthy x then y else x)"

definition py_or :: "pyval \<Rightarrow> pyval \<Rightarrow> pyval" where
  "py_or x y = (if truthy x then x else y)"

datatype error = ValueError | AttributeError | NotImplementedError

section \<open>Filters and the combinators \<^verbatim>\<open>InvertFilter\<close>, \<^verbatim>\<open>AndFilter\<close>, \<^verbatim>\<open>OrFilter\<close>\<close>

text \<open>
  A filter is called with the client and the update. The call may raise, may return any
  value and may write to the update, so its result is \<open>error + pyval \<times> 'u\<close>: the
  exception, or the returned value with the update as the call left it.

  \<open>Filter a f\<close> is a filter object whose \<^verbatim>\<open>__call__\<close> is \<open>f\<close>; \<open>a\<close> is what
  \<^verbatim>\<open>inspect.iscoroutinefunction\<close> says of it (false for the functions given to
  \<^verbatim>\<open>create\<close>, true for the \<^verbatim>\<open>async def __call__\<close> of \<^verbatim>\<open>user\<close> and \<^verbatim>\<open>chat\<close>).
  The three combinator classes define \<^verbatim>\<open>async def __call__\<close>.
\<close>

type_synonym ('c, 'u) call_fn = "'c \<Rightarrow> 'u \<Rightarrow> error + pyval \<times> 'u"

datatype ('c, 'u) Filter =
    Filter bool "('c, 'u) call_fn"
  | InvertFilter "('c, 'u) Filter"
  | AndFilter "('c, 'u) Filter" "('c, 'u) Filter"
  | OrFilter "('c, 'u) Filter" "('c, 'u) Filter"

fun iscoroutinefunction :: "('c, 'u) Filter \<Rightarrow> bool" where
  "iscoroutinefunction (Filter a f) = a"
| "iscoroutinefunction (InvertFilter base) = True"
| "iscoroutinefunction (AndFilter base other) = True"
| "iscoroutinefunction (OrFilter base other) = True"

text \<open>
  \<^verbatim>\<open>__call__\<close> of the four classes. Each combinator either awaits the operand directly
  or awaits \<^verbatim>\<open>client.loop.run_in_executor(client.executor, base, client, update)\<close>; in
  both branches the awaited value is the result of \<^verbatim>\<open>base(client, update)\<close>, and an
  exception of the operand is re-raised at the \<^verbatim>\<open>await\<close>. The scheduling itself (event
  loop, executor thread) is not modelled.
\<close>

fun call :: "('c, 'u) Filter \<Rightarrow> ('c, 'u) call_fn" where
  "call (Filter a f) client update = f client update"
| "call (InvertFilter base) client update =
     (case (if iscoroutinefunction base then call base client update
            else call base client update) of
        Inl e \<Rightarrow> Inl e
      | Inr (x, update1) \<Rightarrow> Inr (PBool (\<not> truthy x), update1))"
| "call (AndFilter base other) client update =
     (case (if iscoroutinefunction base then call base client update
            else call base client update) of
        Inl e \<Rightarrow> Inl e
      | Inr (x, update1) \<Rightarrow>
          if \<not> truthy x then Inr (PBool False, update1)
          else (case (if iscoroutinefunction other then call other client update1
                      else call other client update1) of
                  Inl e \<Rightarrow> Inl e
                | Inr (y, update2) \<Rightarrow> Inr (py_and x y, update2)))"
| "call (OrFilter base other) client update =
     (case (if iscoroutinefunction base then call base client update
            else call base client update) of
        Inl e \<Rightarrow> Inl e
      | Inr (x, update1) \<Rightarrow>
          if truthy x then Inr (PBool True, update1)
          else (case (if iscoroutinefunction other then call other client update1
                      else call other client update1) of
                  Inl e \<Rightarrow> Inl e
                | Inr (y, update2) \<Rightarrow> Inr (py_or x y, update2)))"

text \<open>
  A filter that counts its own invocations in the second component of the state and
  returns \<open>v\<close> (the side-effect counter used to observe whether an operand was called),
  a filter that returns \<open>v\<close> and writes nothing, and a filter that raises \<open>e\<close>.
\<close>

definition counting :: "pyval \<Rightarrow> ('c, 'u \<times> nat) Filter" where
  "counting v = Filter False (\<lambda>client (update, n). Inr (v, (update, Suc n)))"

definition returning :: "pyval \<Rightarrow> ('c, 'u) Filter" where
  "returning v = Filter False (\<lambda>client update. Inr (v, update))"

definition raising :: "error \<Rightarrow> ('c, 'u) Filter" where
  "raising e = Filter False (\<lambda>client update. Inl e)"

section \<open>Characters and strings\<close>

text \<open>
  A Python \<^verbatim>\<open>str\<close> is a sequence of code points. The texts that the filters scan
  (text, caption, callback data, inline query) are lists of code points, \<open>nat\<close> with no
  bound; \<open>str\<close> turns a literal into such a list. User names and the string identifiers
  of the membership filters are \<open>string\<close>, one \<open>char\<close> per code point, so they cover the
  names whose code points are below 256.
\<close>

type_synonym ustr = "nat list"









text \<open>
  \<^verbatim>\<open>str.lower\<close> on a name of code points below 256, and \<^verbatim>\<open>s.strip("@")\<close>: every
  leading and every trailing \<^verbatim>\<open>@\<close> is removed.
\<close>

definition lower_char :: "char \<Rightarrow> char" where
  "lower_char c =
     (let n = (of_char c :: nat)
      in if (65 \<le> n \<and> n \<le> 90) \<or> (192 \<le> n \<and> n \<le> 222 \<and> n \<noteq> 215)
         then (case c of Char b0 b1 b2 b3 b4 b5 b6 b7 \<Rightarrow> Char b0 b1 b2 b3 b4 True b6 b7)
         else c)"

definition lower :: "string \<Rightarrow> string" where
  "lower s = map lower_char s"

definition strip_at :: "string \<Rightarrow> string" where
  "strip_at s = rev (dropWhile (\<lambda>c. c = CHR ''@'') (rev (dropWhile (\<lambda>c. c = CHR ''@'') s)))"

text \<open>Truthiness of an optional string (\<^verbatim>\<open>None\<close> and \<^verbatim>\<open>""\<close> are falsy).\<close>

fun str_truthy :: "'a list option \<Rightarrow> bool" where
  "str_truthy None = False"
| "str_truthy (Some s) = (s \<noteq> [])"

text \<open>\<^verbatim>\<open>a or b\<close> on optional strings, as in \<^verbatim>\<open>message.text or message.caption\<close>.\<close>

definition str_or :: "'a list option \<Rightarrow> 'a list option \<Rightarrow> 'a list option" where
  "str_or a b = (if str_truthy a then a else b)"

section \<open>Updates and the client\<close>

text \<open>
  The classes \<^verbatim>\<open>User\<close>, \<^verbatim>\<open>Chat\<close>, \<^verbatim>\<open>Message\<close>, \<^verbatim>\<open>CallbackQuery\<close> and
  \<^verbatim>\<open>InlineQuery\<close> are declared in other modules; the records hold the
  attributes that the filters read or write, every optional attribute as an \<open>option\<close>.
  \<open>obj\<close> stands for a parsed payload object (a photo, a poll, ...): such objects are
  truthy. \<open>Match\<close> stands for a match object of \<^verbatim>\<open>re\<close>, kept as its span.
\<close>

datatype obj = Obj nat

datatype Match = Match nat nat

datatype ChatType = PRIVATE | BOT | GROUP | SUPERGROUP | CHANNEL

text \<open>
  \<^verbatim>\<open>enums.MessageMediaType\<close> is declared in another module. Its members are taken here
  from the media kinds that \<^verbatim>\<open>filters.py\<close> has a filter for: the twelve fields that the
  documentation of \<^verbatim>\<open>media\<close> names, and \<^verbatim>\<open>web_page\<close>, \<^verbatim>\<open>dice\<close> and \<^verbatim>\<open>game\<close>
  (a dice is sent as media: \<^verbatim>\<open>send_dice\<close> calls \<^verbatim>\<open>SendMedia\<close> with
  \<^verbatim>\<open>InputMediaDice\<close>).
\<close>

datatype MessageMediaType =
    AUDIO | DOCUMENT | PHOTO | STICKER | VIDEO | ANIMATION
  | VOICE | VIDEO_NOTE | CONTACT | LOCATION | VENUE | POLL
  | WEB_PAGE | DICE | GAME

record User =
  user_id :: int
  user_username :: "string option"
  user_is_self :: "bool option"

record Chat =
  chat_id :: int
  chat_type :: ChatType
  chat_username :: "string option"

record Message =
  m_text :: "ustr option"
  m_caption :: "ustr option"
  m_chat :: "Chat option"
  m_from_user :: "User option"
  m_outgoing :: "bool option"
  m_media :: "MessageMediaType option"
  m_audio :: "obj option"
  m_document :: "obj option"
  m_photo :: "obj option"
  m_sticker :: "obj option"
  m_video :: "obj option"
  m_animation :: "obj option"
  m_voice :: "obj option"
  m_video_note :: "obj option"
  m_contact :: "obj option"
  m_location :: "obj option"
  m_venue :: "obj option"
  m_poll :: "obj option"
  m_web_page :: "obj option"
  m_dice :: "obj option"
  m_game :: "obj option"
  m_command :: "ustr list option"
  m_matches :: "Match list option"

record CallbackQuery =
  cq_message :: "Message option"
  cq_data :: "ustr option"
  cq_matches :: "Match list option"

record InlineQuery =
  iq_query :: ustr
  iq_matches :: "Match list option"

text \<open>
  An update is a message, a callback query, an inline query, or an object of another
  class (\<open>OtherUpdate\<close>, with the annotation it may carry).
\<close>

datatype update =
    UMessage Message
  | UCallbackQuery CallbackQuery
  | UInlineQuery InlineQuery
  | OtherUpdate "Match list option"

fun get_matches :: "update \<Rightarrow> Match list option" where
  "get_matches (UMessage m) = m_matches m"
| "get_matches (UCallbackQuery q) = cq_matches q"
| "get_matches (UInlineQuery q) = iq_matches q"
| "get_matches (OtherUpdate ms) = ms"

fun set_matches :: "Match list option \<Rightarrow> update \<Rightarrow> update" where
  "set_matches ms (UMessage m) = UMessage (m\<lparr>m_matches := ms\<rparr>)"
| "set_matches ms (UCallbackQuery q) = UCallbackQuery (q\<lparr>cq_matches := ms\<rparr>)"
| "set_matches ms (UInlineQuery q) = UInlineQuery (q\<lparr>iq_matches := ms\<rparr>)"
| "set_matches ms (OtherUpdate old) = OtherUpdate ms"

record Client =
  client_me :: User

text \<open>
  A message, a callback query and a client as their constructors build them when every
  optional argument is left at its default \<^verbatim>\<open>None\<close>.
\<close>

definition blank_message :: Message where
  "blank_message =
     \<lparr>m_text = None, m_caption = None, m_chat = None, m_from_user = None, m_outgoing = None,
      m_media = None, m_audio = None, m_document = None, m_photo = None, m_sticker = None,
      m_video = None, m_animation = None, m_voice = None, m_video_note = None,
      m_contact = None, m_location = None, m_venue = None, m_poll = None,
      m_web_page = None, m_dice = None, m_game = None,
      m_command = None, m_matches = None\<rparr>"

definition blank_callback_query :: CallbackQuery where
  "blank_callback_query = \<lparr>cq_message = None, cq_data = None, cq_matches = None\<rparr>"

definition blank_client :: Client where
  "blank_client =
     \<lparr>client_me = \<lparr>user_id = 1, user_username = None, user_is_self = Some True\<rparr>\<rparr>"

text \<open>
  \<^verbatim>\<open>create(func, name, **kwargs)\<close> builds an object of a new subclass of \<^verbatim>\<open>Filter\<close>
  whose \<^verbatim>\<open>__call__\<close> is \<open>func\<close> and whose attributes are the keyword arguments; \<open>func\<close>
  receives that object as its first argument.
\<close>

definition create :: "('k \<Rightarrow> ('c, 'u) call_fn) \<Rightarrow> 'k \<Rightarrow> ('c, 'u) Filter" where
  "create func kwargs = Filter False (func kwargs)"

section \<open>The chat-scope filters and \<^verbatim>\<open>media_filter\<close>\<close>

text \<open>
  \<^verbatim>\<open>m.message.chat\<close> on a callback query raises \<^verbatim>\<open>AttributeError\<close> when
  \<^verbatim>\<open>m.message\<close> is \<^verbatim>\<open>None\<close>. The three filters do not write to the update.
\<close>

definition private_filter :: "(Client, update) call_fn" where
  "private_filter client m =
     (case (case m of
              UMessage msg \<Rightarrow> Inr (m_chat msg)
            | UCallbackQuery q \<Rightarrow>
                (case cq_message q of
                   None \<Rightarrow> Inl AttributeError
                 | Some msg \<Rightarrow> Inr (m_chat msg))
            | UInlineQuery q \<Rightarrow> Inl ValueError
            | OtherUpdate ms \<Rightarrow> Inl ValueError) of
        Inl e \<Rightarrow> Inl e
      | Inr val \<Rightarrow>
          Inr (PBool (case val of None \<Rightarrow> False
                      | Some c \<Rightarrow> chat_type c \<in> {PRIVATE, BOT}), m))"

definition group_filter :: "(Client, update) call_fn" where
  "group_filter client m =
     (case (case m of
              UMessage msg \<Rightarrow> Inr (m_chat msg)
            | UCallbackQuery q \<Rightarrow>
                (case cq_message q of
                   None \<Rightarrow> Inl AttributeError
                 | Some msg \<Rightarrow> Inr (m_chat msg))
            | UInlineQuery q \<Rightarrow> Inl ValueError
            | OtherUpdate ms \<Rightarrow> Inl ValueError) of
        Inl e \<Rightarrow> Inl e
      | Inr val \<Rightarrow>
          Inr (PBool (case val of None \<Rightarrow> False
                      | Some c \<Rightarrow> chat_type c \<in> {GROUP, SUPERGROUP}), m))"

definition channel_filter :: "(Client, update) call_fn" where
  "channel_filter client m =
     (case (case m of
              UMessage msg \<Rightarrow> Inr (m_chat msg)
            | UCallbackQuery q \<Rightarrow>
                (case cq_message q of
                   None \<Rightarrow> Inl AttributeError
                 | Some msg \<Rightarrow> Inr (m_chat msg))
            | UInlineQuery q \<Rightarrow> Inl ValueError
            | OtherUpdate ms \<Rightarrow> Inl ValueError) of
        Inl e \<Rightarrow> Inl e
      | Inr val \<Rightarrow>
          Inr (PBool (case val of None \<Rightarrow> False
                      | Some c \<Rightarrow> chat_type c = CHANNEL), m))"

text \<open>\<^verbatim>\<open>media_filter\<close> is \<^verbatim>\<open>bool(m.media)\<close>; enum members are truthy.\<close>

definition media_filter :: "Client \<Rightarrow> Message \<Rightarrow> pyval" where
  "media_filter client m = PBool (m_media m \<noteq> None)"

text \<open>The twelve fields that the documentation of \<^verbatim>\<open>media\<close> names.\<close>

definition media_fields :: "Message \<Rightarrow> obj option list" where
  "media_fields m =
     [m_audio m, m_document m, m_photo m, m_sticker m, m_video m, m_animation m,
      m_voice m, m_video_note m, m_contact m, m_location m, m_venue m, m_poll m]"

section \<open>The \<^verbatim>\<open>regex\<close> filter\<close>

text \<open>
  The module \<^verbatim>\<open>re\<close> is a library: a compiled pattern is taken as the function that
  \<^verbatim>\<open>finditer\<close> computes, from the text to the list of the non-overlapping matches in
  order, and \<^verbatim>\<open>re.compile\<close> is a parameter of the constructor.
\<close>

type_synonym Pattern = "ustr \<Rightarrow> Match list"

datatype pattern_arg = PatternStr ustr | PatternObj Pattern

record RegexFilter =
  flt_p :: Pattern

definition regex_func :: "RegexFilter \<Rightarrow> (Client, update) call_fn" where
  "regex_func flt client update =
     (case (case update of
              UMessage m \<Rightarrow> Inr (str_or (m_text m) (m_caption m))
            | UCallbackQuery q \<Rightarrow> Inr (cq_data q)
            | UInlineQuery q \<Rightarrow> Inr (Some (iq_query q))
            | OtherUpdate ms \<Rightarrow> Inl ValueError) of
        Inl e \<Rightarrow> Inl e
      | Inr val \<Rightarrow>
          (let update1 =
                 (if str_truthy val
                  then set_matches (case flt_p flt (the val) of [] \<Rightarrow> None
                                    | ms \<Rightarrow> Some ms) update
                  else update)
           in Inr (PBool (case get_matches update1 of None \<Rightarrow> False
                          | Some ms \<Rightarrow> ms \<noteq> []), update1)))"

definition regex ::
  "(ustr \<Rightarrow> int \<Rightarrow> error + Pattern) \<Rightarrow> pattern_arg \<Rightarrow> int \<Rightarrow> error + RegexFilter" where
  "regex re_compile pattern flags =
     (case pattern of
        PatternObj q \<Rightarrow> Inr \<lparr>flt_p = q\<rparr>
      | PatternStr s \<Rightarrow>
          (case re_compile s flags of Inl e \<Rightarrow> Inl e | Inr q \<Rightarrow> Inr \<lparr>flt_p = q\<rparr>))"

text \<open>
  The text that the filter selects (its variable \<^verbatim>\<open>value\<close>) on the shapes it supports.
  \<^verbatim>\<open>update.matches\<close> is written at one place only, in this filter and under
  \<^verbatim>\<open>if value:\<close>, and no filter writes the selected text. So on an update as it is parsed
  (\<^verbatim>\<open>matches\<close> is \<^verbatim>\<open>None\<close>), and after any number of evaluations, \<^verbatim>\<open>matches\<close> is set
  only if the selected text is present: \<open>matches_only_with_text\<close>.
\<close>

definition selected_text :: "update \<Rightarrow> ustr option" where
  "selected_text update =
     (case update of
        UMessage m \<Rightarrow> str_or (m_text m) (m_caption m)
      | UCallbackQuery q \<Rightarrow> cq_data q
      | UInlineQuery q \<Rightarrow> Some (iq_query q)
      | OtherUpdate ms \<Rightarrow> None)"


definition matches_only_with_text :: "update \<Rightarrow> bool" where
  "matches_only_with_text update =
     (get_matches update = None \<or> str_truthy (selected_text update))"



section \<open>The membership filters \<^verbatim>\<open>user\<close> and \<^verbatim>\<open>chat\<close>\<close>

text \<open>
  Both classes inherit from \<^verbatim>\<open>set\<close>: the filter object is the set of identifiers.
  An identifier is an integer or a string; a constructor argument is one value or a
  list of values (\<open>'a arg\<close>), or \<^verbatim>\<open>None\<close> where the parameter allows it.
\<close>

datatype ident = IntId int | StrId string

datatype 'a arg = One 'a | Many "'a list"

definition user_init :: "ident arg option \<Rightarrow> ident set" where
  "user_init users =
     (let users = (case users of None \<Rightarrow> [] | Some (Many us) \<Rightarrow> us | Some (One u) \<Rightarrow> [u])
      in set (map (\<lambda>u. if u \<in> {StrId ''me'', StrId ''self''} then StrId ''me''
                        else (case u of StrId s \<Rightarrow> StrId (strip_at (lower s))
                              | IntId n \<Rightarrow> u)) users))"

definition chat_init :: "ident arg option \<Rightarrow> ident set" where
  "chat_init chats =
     (let chats = (case chats of None \<Rightarrow> [] | Some (Many cs) \<Rightarrow> cs | Some (One c) \<Rightarrow> [c])
      in set (map (\<lambda>c. if c \<in> {StrId ''me'', StrId ''self''} then StrId ''me''
                        else (case c of StrId s \<Rightarrow> StrId (strip_at (lower s))
                              | IntId n \<Rightarrow> c)) chats))"

text \<open>
  \<^verbatim>\<open>add\<close> is the method inherited from \<^verbatim>\<open>set\<close>; neither class overrides it, nor any
  other method of \<^verbatim>\<open>set\<close>.
\<close>

definition add :: "ident \<Rightarrow> ident set \<Rightarrow> ident set" where
  "add x self = insert x self"

text \<open>
  The normal form that both constructors compute for an identifier: a number as it is,
  \<^verbatim>\<open>"me"\<close> and \<^verbatim>\<open>"self"\<close> as \<^verbatim>\<open>"me"\<close>, any other string lower-cased and without
  its leading and trailing \<^verbatim>\<open>@\<close>. \<open>items\<close> lists the identifiers that a constructor
  argument supplies.
\<close>

fun normalized :: "ident \<Rightarrow> ident" where
  "normalized (IntId n) = IntId n"
| "normalized (StrId s) =
     (if s = ''me'' \<or> s = ''self'' then StrId ''me'' else StrId (strip_at (lower s)))"

fun items :: "'a arg option \<Rightarrow> 'a list" where
  "items None = []"
| "items (Some (One x)) = [x]"
| "items (Some (Many xs)) = xs"

fun of_opt_bool :: "bool option \<Rightarrow> pyval" where
  "of_opt_bool None = PNone"
| "of_opt_bool (Some b) = PBool b"

text \<open>
  \<^verbatim>\<open>user.__call__\<close> and \<^verbatim>\<open>chat.__call__\<close> return the value of their
  \<^verbatim>\<open>and\<close>/\<^verbatim>\<open>or\<close> chain as it is. A \<^verbatim>\<open>User\<close> or \<^verbatim>\<open>Chat\<close> object is truthy, so
  \<^verbatim>\<open>message.from_user and e\<close> is \<^verbatim>\<open>None\<close> when there is no sender and the value of
  \<open>e\<close> otherwise. Neither call writes to the message.
\<close>

definition user_call :: "ident set \<Rightarrow> Client \<Rightarrow> Message \<Rightarrow> pyval" where
  "user_call self client message =
     (case m_from_user message of
        None \<Rightarrow> PNone
      | Some from_user \<Rightarrow>
          py_or (PBool (IntId (user_id from_user) \<in> self))
           (py_or (case user_username from_user of
                     None \<Rightarrow> PNone
                   | Some n \<Rightarrow> if n = [] then PStr n else PBool (StrId (lower n) \<in> self))
                  (if StrId ''me'' \<in> self then of_opt_bool (user_is_self from_user)
                   else PBool False)))"

definition chat_call :: "ident set \<Rightarrow> Client \<Rightarrow> Message \<Rightarrow> pyval" where
  "chat_call self client message =
     (case m_chat message of
        None \<Rightarrow> PNone
      | Some chat \<Rightarrow>
          py_or (PBool (IntId (chat_id chat) \<in> self))
           (py_or (case chat_username chat of
                     None \<Rightarrow> PNone
                   | Some n \<Rightarrow> if n = [] then PStr n else PBool (StrId (lower n) \<in> self))
                  (if StrId ''me'' \<in> self
                   then (case m_from_user message of
                           None \<Rightarrow> PNone
                         | Some from_user \<Rightarrow>
                             py_and (of_opt_bool (user_is_self from_user))
                                    (PBool (\<not> truthy (of_opt_bool (m_outgoing message)))))
                   else PBool False)))"

section \<open>The \<^verbatim>\<open>command\<close> filter\<close>

subsection \<open>The regular expressions of the filter\<close>
























subsection \<open>The filter\<close>











section \<open>Short-circuit evaluation and negation\<close>

text \<open>
  C3. For all filters \<open>P\<close> and \<open>Q\<close>, client and update: if the call of \<open>P\<close> raises, so do
  \<open>AndFilter P Q\<close> and \<open>OrFilter P Q\<close> (the left operand is evaluated first, whatever \<open>Q\<close>
  is). If \<open>P\<close> returns \<open>x\<close> and leaves the update as \<open>update1\<close>, then with \<open>x\<close> falsy
  \<open>AndFilter P Q\<close> returns \<^verbatim>\<open>False\<close> with the update exactly as \<open>P\<close> left it, and with
  \<open>x\<close> truthy \<open>OrFilter P Q\<close> returns \<^verbatim>\<open>True\<close> with the update exactly as \<open>P\<close> left it.
  The statement holds for every \<open>Q\<close>, so \<open>Q\<close> is not called: no write of \<open>Q\<close> reaches the
  update. In the other two cases \<open>Q\<close> is called on the update that \<open>P\<close> left.
\<close>

theorem and_or_short_circuit:
  fixes P Q :: "('c, 'u) Filter"
  shows "(call P client update = Inl e \<longrightarrow>
            call (AndFilter P Q) client update = Inl e \<and>
            call (OrFilter P Q) client update = Inl e) \<and>
         (call P client update = Inr (x, update1) \<and> \<not> truthy x \<longrightarrow>
            call (AndFilter P Q) client update = Inr (PBool False, update1) \<and>
            call (OrFilter P Q) client update =
              map_sum id (\<lambda>(y, update2). (py_or x y, update2)) (call Q client update1)) \<and>
         (call P client update = Inr (x, update1) \<and> truthy x \<longrightarrow>
            call (OrFilter P Q) client update = Inr (PBool True, update1) \<and>
            call (AndFilter P Q) client update =
              map_sum id (\<lambda>(y, update2). (py_and x y, update2)) (call Q client update1))"
  by (auto split: sum.splits)

text \<open>
  The theorem at a counting right operand: after \<open>AndFilter\<close> with a falsy left operand
  and after \<open>OrFilter\<close> with a truthy one the counter is still 0; in the two other cases
  the right operand has run once and its value is returned as it is; a left operand that
  raises ends the call.
\<close>

theorem and_or_short_circuit_witness:
  "call (AndFilter (returning PNone) (counting (PBool True))) () ((), 0::nat)
     = Inr (PBool False, ((), 0)) \<and>
   call (OrFilter (returning (PInt 5)) (counting (PBool True))) () ((), 0::nat)
     = Inr (PBool True, ((), 0)) \<and>
   call (OrFilter (returning PNone) (counting (PStr ''a''))) () ((), 0::nat)
     = Inr (PStr ''a'', ((), 1)) \<and>
   call (AndFilter (returning (PInt 5)) (counting (PStr ''a''))) () ((), 0::nat)
     = Inr (PStr ''a'', ((), 1)) \<and>
   call (AndFilter (raising ValueError) (counting (PBool True))) () ((), 0::nat)
     = Inl ValueError \<and>
   call (OrFilter (raising ValueError) (counting (PBool True))) () ((), 0::nat)
     = Inl ValueError"
proof -
  have p: "call (returning PNone :: (unit, unit \<times> nat) Filter) () ((), 0) = Inr (PNone, ((), 0))"
    by (simp add: returning_def)
  have q: "call (returning (PInt 5) :: (unit, unit \<times> nat) Filter) () ((), 0)
             = Inr (PInt 5, ((), 0))"
    by (simp add: returning_def)
  have r: "call (raising ValueError :: (unit, unit \<times> nat) Filter) () ((), 0) = Inl ValueError"
    by (simp add: raising_def)
  have c: "call (counting (PStr ''a'') :: (unit, unit \<times> nat) Filter) () ((), 0)
             = Inr (PStr ''a'', ((), 1))"
    by (simp add: counting_def)
  from and_or_short_circuit [of "returning PNone" "()" "((), 0::nat)" _
      "counting (PBool True)" PNone "((), 0)"] p
  have a1: "call (AndFilter (returning PNone) (counting (PBool True))) () ((), 0::nat)
             = Inr (PBool False, ((), 0))"
    by simp
  from and_or_short_circuit [of "returning (PInt 5)" "()" "((), 0::nat)" _
      "counting (PBool True)" "PInt 5" "((), 0)"] q
  have a2: "call (OrFilter (returning (PInt 5)) (counting (PBool True))) () ((), 0::nat)
             = Inr (PBool True, ((), 0))"
    by simp
  from and_or_short_circuit [of "returning PNone" "()" "((), 0::nat)" _
      "counting (PStr ''a'')" PNone "((), 0)"] p c
  have a3: "call (OrFilter (returning PNone) (counting (PStr ''a''))) () ((), 0::nat)
             = Inr (PStr ''a'', ((), 1))"
    by (simp add: py_or_def)
  from and_or_short_circuit [of "returning (PInt 5)" "()" "((), 0::nat)" _
      "counting (PStr ''a'')" "PInt 5" "((), 0)"] q c
  have a4: "call (AndFilter (returning (PInt 5)) (counting (PStr ''a''))) () ((), 0::nat)
             = Inr (PStr ''a'', ((), 1))"
    by (simp add: py_and_def)
  from and_or_short_circuit [of "raising ValueError" "()" "((), 0::nat)" ValueError
      "counting (PBool True)"] r
  have a5: "call (AndFilter (raising ValueError) (counting (PBool True))) () ((), 0::nat)
              = Inl ValueError"
       "call (OrFilter (raising ValueError) (counting (PBool True))) () ((), 0::nat)
              = Inl ValueError"
    by simp_all
  from a1 a2 a3 a4 a5 show ?thesis by simp
qed

text \<open>
  C4. For every filter \<open>P\<close>, client and update on which the call of \<open>P\<close> does not raise
  but returns \<open>x\<close>, \<open>InvertFilter P\<close> returns the boolean negation of the truth value of
  \<open>x\<close> and leaves the update as \<open>P\<close> left it.
\<close>

theorem invert_negates:
  fixes P :: "('c, 'u) Filter"
  assumes "call P client update = Inr (x, update1)"
  shows "call (InvertFilter P) client update = Inr (PBool (\<not> truthy x), update1)"
  using assms by simp

theorem invert_negates_witness:
  "call (InvertFilter (returning (PStr ''a''))) () () = Inr (PBool False, ()) \<and>
   call (InvertFilter (returning PNone)) () () = Inr (PBool True, ())"
proof -
  have p: "call (returning (PStr ''a'') :: (unit, unit) Filter) () () = Inr (PStr ''a'', ())"
    by (simp add: returning_def)
  have q: "call (returning PNone :: (unit, unit) Filter) () () = Inr (PNone, ())"
    by (simp add: returning_def)
  from invert_negates [OF p] invert_negates [OF q] show ?thesis by simp
qed

section \<open>The \<^verbatim>\<open>regex\<close>, chat-scope, membership and media filters\<close>

text \<open>
  C9. Built from a compiled pattern object, the \<^verbatim>\<open>regex\<close> filter stores that object
  as it is: \<^verbatim>\<open>re.compile\<close> is not called and \<open>flags\<close> is not read. Whatever the
  flags (and whatever \<^verbatim>\<open>re.compile\<close> would do), the filters built over the same pattern
  object are equal, and each evaluates on every client and update as the filter that
  holds the pattern object.
\<close>

theorem regex_compiled_ignores_flags:
  "regex re_compile (PatternObj q) flags = Inr \<lparr>flt_p = q\<rparr> \<and>
   regex re_compile (PatternObj q) flags = regex re_compile' (PatternObj q) flags' \<and>
   map_sum id (\<lambda>flt. regex_func flt client update) (regex re_compile (PatternObj q) flags)
     = Inr (regex_func \<lparr>flt_p = q\<rparr> client update)"
  by (simp add: regex_def)

text \<open>
  An update whose \<^verbatim>\<open>matches\<close> is \<^verbatim>\<open>None\<close>, as a parsed update is, satisfies
  \<open>matches_only_with_text\<close>.
\<close>

lemma parsed_update_invariant:
  "get_matches update = None \<Longrightarrow> matches_only_with_text update"
  by (simp add: matches_only_with_text_def)









text \<open>
  The hypothesis is needed: on a message built by hand with \<^verbatim>\<open>matches\<close> set and no
  text, which no parsed update is, the filter writes nothing and returns \<^verbatim>\<open>True\<close>.
\<close>

lemma regex_on_hand_built_message:
  "regex_func \<lparr>flt_p = (\<lambda>s. [])\<rparr> blank_client
       (UMessage (blank_message\<lparr>m_matches := Some [Match 0 1]\<rparr>))
     = Inr (PBool True, UMessage (blank_message\<lparr>m_matches := Some [Match 0 1]\<rparr>))"
  by (simp add: regex_func_def blank_message_def str_or_def)

text \<open>
  C7 on the code: a callback query is a recognized shape, and its \<^verbatim>\<open>message\<close> is
  \<^verbatim>\<open>None\<close> when the button belongs to an inline message. The three chat-scope filters
  then raise \<^verbatim>\<open>AttributeError\<close> at \<^verbatim>\<open>m.message.chat\<close> instead of returning
  \<^verbatim>\<open>False\<close>.
\<close>

theorem chat_scope_callback_without_message:
  "private_filter blank_client (UCallbackQuery blank_callback_query) = Inl AttributeError \<and>
   group_filter blank_client (UCallbackQuery blank_callback_query) = Inl AttributeError \<and>
   channel_filter blank_client (UCallbackQuery blank_callback_query) = Inl AttributeError"
  by (simp add: private_filter_def group_filter_def channel_filter_def
      blank_callback_query_def)

text \<open>The parts of C7 that hold on the code.\<close>

lemma unsupported_shape_raises:
  "private_filter client (UInlineQuery q) = Inl ValueError"
  "group_filter client (UInlineQuery q) = Inl ValueError"
  "channel_filter client (UInlineQuery q) = Inl ValueError"
  "private_filter client (OtherUpdate ms) = Inl ValueError"
  "group_filter client (OtherUpdate ms) = Inl ValueError"
  "channel_filter client (OtherUpdate ms) = Inl ValueError"
  "regex_func flt client (OtherUpdate ms) = Inl ValueError"
  by (simp_all add: private_filter_def group_filter_def channel_filter_def
      regex_func_def)

lemma missing_chat_is_false:
  assumes "m_chat msg = None"
  shows "private_filter client (UMessage msg) = Inr (PBool False, UMessage msg)"
    and "group_filter client (UMessage msg) = Inr (PBool False, UMessage msg)"
    and "channel_filter client (UMessage msg) = Inr (PBool False, UMessage msg)"
    and "cq_message q = Some msg \<Longrightarrow>
         private_filter client (UCallbackQuery q) = Inr (PBool False, UCallbackQuery q)"
  using assms
  by (simp_all add: private_filter_def group_filter_def channel_filter_def)

lemma error_propagates:
  "call base client update = Inl e \<Longrightarrow> call (InvertFilter base) client update = Inl e"
  "call base client update = Inl e \<Longrightarrow> call (AndFilter base other) client update = Inl e"
  "call base client update = Inl e \<Longrightarrow> call (OrFilter base other) client update = Inl e"
  "call base client update = Inr (x, update1) \<Longrightarrow> truthy x \<Longrightarrow>
     call other client update1 = Inl e \<Longrightarrow> call (AndFilter base other) client update = Inl e"
  "call base client update = Inr (x, update1) \<Longrightarrow> \<not> truthy x \<Longrightarrow>
     call other client update1 = Inl e \<Longrightarrow> call (OrFilter base other) client update = Inl e"
  by simp_all

text \<open>
  C6 on the code: \<^verbatim>\<open>user\<close> and \<^verbatim>\<open>chat\<close> return the value of their \<^verbatim>\<open>and\<close>/\<^verbatim>\<open>or\<close>
  chain without \<^verbatim>\<open>bool(...)\<close>. On a message without sender, respectively without chat,
  the value is \<^verbatim>\<open>None\<close>, and so it is for \<^verbatim>\<open>chat("me")\<close> on a channel post (a chat,
  no sender).
\<close>

theorem membership_returns_none:
  "user_call (user_init (Some (One (IntId 123)))) blank_client blank_message = PNone \<and>
   chat_call (chat_init (Some (One (IntId 123)))) blank_client blank_message = PNone \<and>
   chat_call (chat_init (Some (One (StrId ''me'')))) blank_client
     (blank_message\<lparr>m_chat := Some \<lparr>chat_id = 7, chat_type = CHANNEL, chat_username = None\<rparr>\<rparr>)
     = PNone \<and>
   \<not> is_bool PNone"
  by (simp add: user_call_def chat_call_def blank_message_def user_init_def chat_init_def
      py_or_def)

text \<open>
  C8 on the code: \<^verbatim>\<open>media_filter\<close> is \<^verbatim>\<open>bool(m.media)\<close> and reads none of the twelve
  fields that its documentation names. On a dice message (\<^verbatim>\<open>media\<close> is
  \<^verbatim>\<open>MessageMediaType.DICE\<close>, \<^verbatim>\<open>dice\<close> is set) it returns \<^verbatim>\<open>True\<close> with all twelve
  fields absent.
\<close>

theorem media_filter_dice_message:
  "media_filter blank_client (blank_message\<lparr>m_media := Some DICE, m_dice := Some (Obj 0)\<rparr>)
     = PBool True \<and>
   set (media_fields (blank_message\<lparr>m_media := Some DICE, m_dice := Some (Obj 0)\<rparr>))
     = {None}"
  by (simp add: media_filter_def media_fields_def blank_message_def)

text \<open>The result depends on the attribute \<^verbatim>\<open>media\<close> alone.\<close>

lemma media_filter_reads_media:
  "m_media m = m_media m' \<Longrightarrow> media_filter client m = media_filter client' m'"
  by (simp add: media_filter_def)

section \<open>Normalization of the identifiers of \<^verbatim>\<open>user\<close> and \<^verbatim>\<open>chat\<close>\<close>

text \<open>
  The generator expression of both constructors computes \<open>normalized\<close>.
\<close>

lemma init_is_image:
  "user_init a = normalized ` set (items a)" "chat_init a = normalized ` set (items a)"
proof -
  have n: "\<And>u. (if u \<in> {StrId ''me'', StrId ''self''} then StrId ''me''
                 else (case u of StrId s \<Rightarrow> StrId (strip_at (lower s)) | IntId n \<Rightarrow> u))
               = normalized u"
    by (case_tac u) auto
  show "user_init a = normalized ` set (items a)"
    by (cases a rule: items.cases) (simp_all add: user_init_def n del: insert_iff)
  show "chat_init a = normalized ` set (items a)"
    by (cases a rule: items.cases) (simp_all add: chat_init_def n del: insert_iff)
qed

text \<open>
  The part of C5 that holds on the code: the constructors normalize every identifier
  they are given, so that \<^verbatim>\<open>user(["@Alice", 123, "me"])\<close> holds exactly
  \<^verbatim>\<open>{"alice", 123, "me"}\<close>.
\<close>

lemma constructor_normalizes:
  "user_init a = normalized ` set (items a) \<and>
   chat_init a = normalized ` set (items a) \<and>
   user_init (Some (Many [StrId ''@Alice'', IntId 123, StrId ''me'']))
     = {StrId ''alice'', IntId 123, StrId ''me''} \<and>
   chat_init (Some (Many [StrId ''@Alice'', IntId 123, StrId ''me'']))
     = {StrId ''alice'', IntId 123, StrId ''me''}"
  by (simp add: init_is_image strip_at_def lower_def lower_char_def)

text \<open>
  C5 on the code: \<^verbatim>\<open>add\<close> is \<^verbatim>\<open>set.add\<close> and does not normalize. After
  \<^verbatim>\<open>u = user(); u.add("@Alice")\<close> the set holds \<^verbatim>\<open>"@Alice"\<close> as given, and the filter
  does not match a message from the user \<^verbatim>\<open>Alice\<close>, which \<^verbatim>\<open>user("@Alice")\<close> matches.
  After \<^verbatim>\<open>u.add("self")\<close> the filter does not match a message from the account
  itself, which \<^verbatim>\<open>user("self")\<close> matches.
\<close>

theorem add_stores_unnormalized:
  "add (StrId ''@Alice'') (user_init None) = {StrId ''@Alice''} \<and>
   add (StrId ''@Alice'') (chat_init None) = {StrId ''@Alice''} \<and>
   user_init (Some (One (StrId ''@Alice''))) = {StrId ''alice''} \<and>
   user_call (add (StrId ''@Alice'') (user_init None)) blank_client
       (blank_message\<lparr>m_from_user :=
          Some \<lparr>user_id = 5, user_username = Some ''Alice'', user_is_self = Some False\<rparr>\<rparr>)
     = PBool False \<and>
   user_call (user_init (Some (One (StrId ''@Alice'')))) blank_client
       (blank_message\<lparr>m_from_user :=
          Some \<lparr>user_id = 5, user_username = Some ''Alice'', user_is_self = Some False\<rparr>\<rparr>)
     = PBool True \<and>
   user_call (add (StrId ''self'') (user_init None)) blank_client
       (blank_message\<lparr>m_from_user :=
          Some \<lparr>user_id = 1, user_username = None, user_is_self = Some True\<rparr>\<rparr>)
     = PBool False \<and>
   user_call (user_init (Some (One (StrId ''self'')))) blank_client
       (blank_message\<lparr>m_from_user :=
          Some \<lparr>user_id = 1, user_username = None, user_is_self = Some True\<rparr>\<rparr>)
     = PBool True"
  by (simp add: init_is_image add_def strip_at_def lower_def lower_char_def user_call_def
      py_or_def)

lemma lower_me_self: "lower ''me'' = ''me''" "lower ''self'' = ''self''"
  by (simp_all add: lower_def lower_char_def)

lemma strip_me_self: "strip_at ''me'' = ''me''" "strip_at ''self'' = ''self''"
  by (simp_all add: strip_at_def)

text \<open>
  C10. A string that lower-cases to \<^verbatim>\<open>"self"\<close> but is not \<^verbatim>\<open>"self"\<close> itself
  (\<^verbatim>\<open>"Self"\<close>, \<^verbatim>\<open>"SELF"\<close>, ...) is stored by both constructors as the plain token
  \<^verbatim>\<open>"self"\<close>: the set does not hold \<^verbatim>\<open>"me"\<close>, and the result of the filter built from
  it does not depend on \<^verbatim>\<open>is_self\<close> of the sender. Every string that lower-cases to
  \<^verbatim>\<open>"me"\<close> is stored as \<^verbatim>\<open>"me"\<close>.
\<close>

theorem self_sentinel_exact_lowercase:
  "(lower s = ''self'' \<and> s \<noteq> ''self'' \<longrightarrow>
      user_init (Some (One (StrId s))) = {StrId ''self''} \<and>
      chat_init (Some (One (StrId s))) = {StrId ''self''} \<and>
      StrId ''me'' \<notin> user_init (Some (One (StrId s))) \<and>
      StrId ''me'' \<notin> chat_init (Some (One (StrId s))) \<and>
      user_call (user_init (Some (One (StrId s)))) client
          (message\<lparr>m_from_user := Some (u\<lparr>user_is_self := b\<rparr>)\<rparr>)
        = user_call (user_init (Some (One (StrId s)))) client
          (message\<lparr>m_from_user := Some (u\<lparr>user_is_self := b'\<rparr>)\<rparr>) \<and>
      chat_call (chat_init (Some (One (StrId s)))) client
          (message\<lparr>m_from_user := Some (u\<lparr>user_is_self := b\<rparr>)\<rparr>)
        = chat_call (chat_init (Some (One (StrId s)))) client
          (message\<lparr>m_from_user := Some (u\<lparr>user_is_self := b'\<rparr>)\<rparr>)) \<and>
   (lower s = ''me'' \<longrightarrow>
      user_init (Some (One (StrId s))) = {StrId ''me''} \<and>
      chat_init (Some (One (StrId s))) = {StrId ''me''})"
proof (intro conjI impI)
  assume a: "lower s = ''self'' \<and> s \<noteq> ''self''"
  then have ne: "s \<noteq> ''me''" using lower_me_self by auto
  from a ne show u: "user_init (Some (One (StrId s))) = {StrId ''self''}"
    by (simp add: init_is_image strip_me_self)
  from a ne show c: "chat_init (Some (One (StrId s))) = {StrId ''self''}"
    by (simp add: init_is_image strip_me_self)
  show "StrId ''me'' \<notin> user_init (Some (One (StrId s)))" by (simp add: u)
  show "StrId ''me'' \<notin> chat_init (Some (One (StrId s)))" by (simp add: c)
  show "user_call (user_init (Some (One (StrId s)))) client
          (message\<lparr>m_from_user := Some (u\<lparr>user_is_self := b\<rparr>)\<rparr>)
        = user_call (user_init (Some (One (StrId s)))) client
          (message\<lparr>m_from_user := Some (u\<lparr>user_is_self := b'\<rparr>)\<rparr>)"
    by (simp add: u user_call_def)
  show "chat_call (chat_init (Some (One (StrId s)))) client
          (message\<lparr>m_from_user := Some (u\<lparr>user_is_self := b\<rparr>)\<rparr>)
        = chat_call (chat_init (Some (One (StrId s)))) client
          (message\<lparr>m_from_user := Some (u\<lparr>user_is_self := b'\<rparr>)\<rparr>)"
    by (simp add: c chat_call_def)
next
  assume a: "lower s = ''me''"
  show "user_init (Some (One (StrId s))) = {StrId ''me''}"
    using a by (simp add: init_is_image strip_me_self)
  show "chat_init (Some (One (StrId s))) = {StrId ''me''}"
    using a by (simp add: init_is_image strip_me_self)
qed

theorem self_sentinel_exact_lowercase_witness:
  "user_init (Some (One (StrId ''Self''))) = {StrId ''self''} \<and>
   chat_init (Some (One (StrId ''Self''))) = {StrId ''self''} \<and>
   user_call (user_init (Some (One (StrId ''Self'')))) blank_client
       (blank_message\<lparr>m_from_user :=
          Some \<lparr>user_id = 1, user_username = None, user_is_self = Some True\<rparr>\<rparr>)
     = PBool False \<and>
   user_call (user_init (Some (One (StrId ''self'')))) blank_client
       (blank_message\<lparr>m_from_user :=
          Some \<lparr>user_id = 1, user_username = None, user_is_self = Some True\<rparr>\<rparr>)
     = PBool True \<and>
   user_init (Some (One (StrId ''ME''))) = {StrId ''me''} \<and>
   chat_init (Some (One (StrId ''Me''))) = {StrId ''me''}"
proof -
  have l: "lower ''Self'' = ''self'' \<and> ''Self'' \<noteq> ''self''"
    by (simp add: lower_def lower_char_def)
  have m: "lower ''ME'' = ''me''" "lower ''Me'' = ''me''"
    by (simp_all add: lower_def lower_char_def)
  have t: "user_call (user_init (Some (One (StrId ''self'')))) blank_client
       (blank_message\<lparr>m_from_user :=
          Some \<lparr>user_id = 1, user_username = None, user_is_self = Some True\<rparr>\<rparr>)
     = PBool True"
    by (simp add: user_init_def user_call_def py_or_def)
  from self_sentinel_exact_lowercase [of "''Self''"] l
  have s: "user_init (Some (One (StrId ''Self''))) = {StrId ''self''}"
     "chat_init (Some (One (StrId ''Self''))) = {StrId ''self''}"
    by simp_all
  from self_sentinel_exact_lowercase [of "''ME''"] self_sentinel_exact_lowercase [of "''Me''"] m
  have e: "user_init (Some (One (StrId ''ME''))) = {StrId ''me''}"
     "chat_init (Some (One (StrId ''Me''))) = {StrId ''me''}"
    by simp_all
  show ?thesis
    by (simp add: s e t) (simp add: user_call_def py_or_def)
qed

section \<open>The \<^verbatim>\<open>command\<close> filter: matching and arguments\<close>





























end
